theory Spec2Isabelle
  imports Main
begin

section \<open>The tokenizer server\<close>

text \<open>
  The program is one module, \<^verbatim>\<open>tokenizer_server.py\<close>:
  \<^verbatim>\<open>
  app = FastAPI()
  tokenizer = Tokenizer.from_file("models/all-MiniLM-L6-v2/tokenizer.json")

  class TextInput(BaseModel):
      text: str

  @app.post("/tokenize")
  def tokenize(req: TextInput):
      encoding = tokenizer.encode(req.text)
      return {
          "ids": encoding.ids,
          "attention_mask": encoding.attention_mask
      }
  \<close>
  The tokenizer library (\<open>from_file\<close>, \<open>encode\<close>) is outside the
  module, so both operations are parameters of the model. The request body is a parsed
  JSON value, the request model \<open>TextInput\<close> is validated before the handler runs,
  and the route turns the handler's return value or exception into an HTTP response.
\<close>

subsection \<open>JSON values and Python values\<close>

text \<open>
  A JSON document as Python's \<open>json.loads\<close> reads it. An object keeps its members
  in document order; a key written twice keeps the value written last. A number with a
  fraction or an exponent is \<open>JFloat m e\<close>, the literal \<open>m\<close> times ten to the
  \<open>e\<close>; Python reads it as a double. The parser also accepts the literals
  \<open>NaN\<close>, \<open>Infinity\<close> and \<open>-Infinity\<close>.
\<close>

datatype json =
    JNull
  | JBool bool
  | JInt int
  | JFloat int int
  | JNaN
  | JInfinity
  | JNegInfinity
  | JString string
  | JArray "json list"
  | JObject "(string \<times> json) list"

definition dict_get :: "(string \<times> json) list \<Rightarrow> string \<Rightarrow> json option" where
  "dict_get members k = map_of (rev members) k"

fun is_string :: "json \<Rightarrow> bool" where
  "is_string (JString s) = True"
| "is_string v = False"

text \<open>
  A decimal literal is read as the nearest double, so it becomes an infinity when its
  magnitude reaches \<open>2^1024 - 2^970\<close>, half a step above the largest double.
\<close>

definition float_overflows :: "int \<Rightarrow> int \<Rightarrow> bool" where
  "float_overflows m e =
     (if 0 \<le> e then 2 ^ 1024 - 2 ^ 970 \<le> \<bar>m\<bar> * 10 ^ nat e
      else (2 ^ 1024 - 2 ^ 970) * 10 ^ nat (- e) \<le> \<bar>m\<bar>)"

text \<open>The members of the parsed dictionary: of each key, the one written last.\<close>

fun survivors :: "(string \<times> 'a) list \<Rightarrow> (string \<times> 'a) list" where
  "survivors [] = []"
| "survivors ((k, v) # rest) =
     (if k \<in> set (map fst rest) then survivors rest else (k, v) # survivors rest)"

text \<open>
  Whether the parsed value holds a float that is not finite (a NaN or an infinity),
  at any depth. Such a value cannot be written back as JSON.
\<close>

primrec has_nonfinite :: "json \<Rightarrow> bool" where
  "has_nonfinite JNull = False"
| "has_nonfinite (JBool b) = False"
| "has_nonfinite (JInt i) = False"
| "has_nonfinite (JFloat m e) = float_overflows m e"
| "has_nonfinite JNaN = True"
| "has_nonfinite JInfinity = True"
| "has_nonfinite JNegInfinity = True"
| "has_nonfinite (JString s) = False"
| "has_nonfinite (JArray vs) = list_ex (\<lambda>b. b) (map has_nonfinite vs)"
| "has_nonfinite (JObject members) =
     list_ex snd (survivors (map (map_prod (\<lambda>k. k) has_nonfinite) members))"

text \<open>A Python exception, with its message.\<close>

datatype exn = Exception string

subsection \<open>The tokenizer library\<close>

text \<open>
  The \<open>Encoding\<close> object that \<open>encode\<close> returns. The handler reads two of its
  attributes; the others (tokens, type ids, offsets, ...) are the record's extension.
\<close>

record encoding =
  ids :: "int list"
  attention_mask :: "int list"

text \<open>
  \<open>tokenizer.encode(text)\<close> is a method call on a shared object: it returns an
  \<open>Encoding\<close> or raises, and hands back the tokenizer object as the call left it.
  \<open>Tokenizer.from_file(path)\<close> returns a tokenizer or raises.
\<close>

type_synonym ('tok, 'm) encode_op =
  "'tok \<Rightarrow> string \<Rightarrow> (exn + 'm encoding_scheme) \<times> 'tok"

type_synonym 'tok from_file_op = "string \<Rightarrow> exn + 'tok"

text \<open>
  A tokenizer is read-only when \<open>encode\<close> never changes it.
\<close>

definition read_only :: "('tok, 'm) encode_op \<Rightarrow> bool" where
  "read_only encode = (\<forall>tok s. snd (encode tok s) = tok)"

subsection \<open>Module state and the request model\<close>

text \<open>
  The module-level names that hold state: \<open>tokenizer\<close>. Anything else the process
  holds is the record's extension.
\<close>

record 'tok globals =
  tokenizer :: 'tok

text \<open>\<^verbatim>\<open>class TextInput(BaseModel): text: str\<close>\<close>

record TextInput =
  "text" :: string

text \<open>
  What a call leaves behind: the value returned (or the exception raised), the module
  state after it, and the arguments of every \<open>encode\<close> call it made, in order. The
  last is not program state; it records the invocations of the tokenizer.
\<close>

record ('r, 'g) outcome =
  returned :: 'r
  globals_after :: 'g
  encode_calls :: "string list"

subsection \<open>Validation of the request body\<close>

text \<open>
  The field annotation is \<open>str\<close>. A JSON string is accepted as it is; \<open>null\<close>,
  arrays and objects are rejected. Whether a number or a boolean is converted to a
  string or rejected is the validation library's choice (its major versions differ), so
  that conversion is the parameter \<open>coerce\<close>; \<open>no_coercion\<close> rejects them all,
  and \<open>str_coercion\<close> converts integers and booleans as Python's \<open>str\<close> does.
\<close>

type_synonym coercion = "json \<Rightarrow> string option"

fun str_validate :: "coercion \<Rightarrow> json \<Rightarrow> string option" where
  "str_validate coerce (JString s) = Some s"
| "str_validate coerce JNull = None"
| "str_validate coerce (JArray xs) = None"
| "str_validate coerce (JObject members) = None"
| "str_validate coerce v = coerce v"

definition no_coercion :: coercion where
  "no_coercion v = None"

fun digits :: "nat \<Rightarrow> string" where
  "digits n =
     (if n < 10 then [''0123456789'' ! n]
      else digits (n div 10) @ [''0123456789'' ! (n mod 10)])"

fun str_coercion :: coercion where
  "str_coercion (JInt i) = Some (if i < 0 then CHR ''-'' # digits (nat (- i)) else digits (nat i))"
| "str_coercion (JBool b) = Some (if b then ''True'' else ''False'')"
| "str_coercion v = None"

text \<open>
  A validation error names its kind and field and carries the input that was rejected:
  the whole body when the body is not an object or lacks the field, the member's value
  when that value is not accepted as a string.
\<close>

datatype validation_error =
    ModelType json
  | Missing string json
  | StringType string json

fun error_input :: "validation_error \<Rightarrow> json" where
  "error_input (ModelType v) = v"
| "error_input (Missing field v) = v"
| "error_input (StringType field v) = v"

text \<open>
  \<open>TextInput\<close> has one field, \<open>text\<close>, with no default, so it is required. The
  model sets no configuration, so members of the body that are not fields are ignored.
  A body that is not an object is not a \<open>TextInput\<close>.
\<close>

fun validate_TextInput :: "coercion \<Rightarrow> json \<Rightarrow> validation_error + TextInput" where
  "validate_TextInput coerce (JObject members) =
     (case dict_get members ''text'' of
        None \<Rightarrow> Inl (Missing ''text'' (JObject members))
      | Some v \<Rightarrow>
          (case str_validate coerce v of
             None \<Rightarrow> Inl (StringType ''text'' v)
           | Some s \<Rightarrow> Inr \<lparr>text = s\<rparr>))"
| "validate_TextInput coerce body = Inl (ModelType body)"

text \<open>The value of the body's \<open>text\<close> member, if the body is an object that has one.\<close>

fun text_field :: "json \<Rightarrow> json option" where
  "text_field (JObject members) = dict_get members ''text''"
| "text_field body = None"

text \<open>
  The part of a body that a failed validation reports: the \<open>text\<close> member's value
  if there is one, else the whole body.
\<close>

definition rejected_input :: "json \<Rightarrow> json" where
  "rejected_input body = (case text_field body of None \<Rightarrow> body | Some v \<Rightarrow> v)"

subsection \<open>The handler\<close>

type_synonym py_dict = "(string \<times> int list) list"

definition tokenize ::
  "('tok, 'm) encode_op \<Rightarrow> ('tok, 'z) globals_scheme \<Rightarrow> TextInput
     \<Rightarrow> (exn + py_dict, ('tok, 'z) globals_scheme) outcome" where
  "tokenize encode g req =
     (case encode (tokenizer g) (text req) of
        (Inl e, tok') \<Rightarrow>
          \<lparr>returned = Inl e,
           globals_after = g\<lparr>tokenizer := tok'\<rparr>,
           encode_calls = [text req]\<rparr>
      | (Inr encoding, tok') \<Rightarrow>
          \<lparr>returned = Inr [(''ids'', ids encoding),
                           (''attention_mask'', attention_mask encoding)],
           globals_after = g\<lparr>tokenizer := tok'\<rparr>,
           encode_calls = [text req]\<rparr>)"

subsection \<open>The route\<close>

text \<open>
  \<^verbatim>\<open>@app.post("/tokenize")\<close> with the parameter \<open>req: TextInput\<close>: the body is
  validated first, and a validation error is answered with status 422 without calling
  the handler. The 422 body repeats the rejected input, so when that input holds a
  float that is not finite the body cannot be written as JSON: the exception raised
  while writing it is answered with status 500. An exception that leaves the handler
  is answered with status 500. A returned dictionary is sent as a JSON object with
  status 200.
\<close>

datatype http_response =
    OK json
  | UnprocessableEntity validation_error
  | InternalServerError exn

fun status_code :: "http_response \<Rightarrow> nat" where
  "status_code (OK b) = 200"
| "status_code (UnprocessableEntity e) = 422"
| "status_code (InternalServerError e) = 500"

definition json_of_dict :: "py_dict \<Rightarrow> json" where
  "json_of_dict d = JObject (map (\<lambda>(k, xs). (k, JArray (map JInt xs))) d)"

definition post_tokenize ::
  "coercion \<Rightarrow> ('tok, 'm) encode_op \<Rightarrow> ('tok, 'z) globals_scheme \<Rightarrow> json
     \<Rightarrow> (http_response, ('tok, 'z) globals_scheme) outcome" where
  "post_tokenize coerce encode g body =
     (case validate_TextInput coerce body of
        Inl err \<Rightarrow>
          \<lparr>returned =
             (if has_nonfinite (error_input err)
              then InternalServerError
                     (Exception ''Out of range float values are not JSON compliant'')
              else UnprocessableEntity err),
           globals_after = g,
           encode_calls = []\<rparr>
      | Inr req \<Rightarrow>
          (let out = tokenize encode g req
           in \<lparr>returned = (case returned out of
                             Inl e \<Rightarrow> InternalServerError e
                           | Inr d \<Rightarrow> OK (json_of_dict d)),
               globals_after = globals_after out,
               encode_calls = encode_calls out\<rparr>))"

text \<open>Reading a response: the integer array stored under a key of a 200 response.\<close>

fun ints_of :: "json list \<Rightarrow> int list option" where
  "ints_of [] = Some []"
| "ints_of (JInt i # vs) = map_option ((#) i) (ints_of vs)"
| "ints_of (v # vs) = None"

fun response_ints :: "http_response \<Rightarrow> string \<Rightarrow> int list option" where
  "response_ints (OK (JObject members)) k =
     (case dict_get members k of
        Some (JArray vs) \<Rightarrow> ints_of vs
      | _ \<Rightarrow> None)"
| "response_ints r k = None"

text \<open>
  A well-formed \<open>TokenizeResponse\<close>: an object with exactly the members \<open>ids\<close> and
  \<open>attention_mask\<close>, each an array of integers.
\<close>

definition well_formed :: "json \<Rightarrow> bool" where
  "well_formed b =
     (case b of
        JObject [(k1, JArray xs), (k2, JArray ys)] \<Rightarrow>
          k1 = ''ids'' \<and> k2 = ''attention_mask'' \<and> ints_of xs \<noteq> None \<and> ints_of ys \<noteq> None
      | _ \<Rightarrow> False)"

subsection \<open>A run of the server\<close>

text \<open>
  The requests of one process are handled one after another from the module state the
  previous one left. The outcome collects the responses in order, the final state and
  every \<open>encode\<close> call made.
\<close>

fun serve ::
  "coercion \<Rightarrow> ('tok, 'm) encode_op \<Rightarrow> ('tok, 'z) globals_scheme \<Rightarrow> json list
     \<Rightarrow> (http_response list, ('tok, 'z) globals_scheme) outcome" where
  "serve coerce encode g [] = \<lparr>returned = [], globals_after = g, encode_calls = []\<rparr>"
| "serve coerce encode g (body # bodies) =
     (let out = post_tokenize coerce encode g body;
          rest = serve coerce encode (globals_after out) bodies
      in \<lparr>returned = returned out # returned rest,
          globals_after = globals_after rest,
          encode_calls = encode_calls out @ encode_calls rest\<rparr>)"

text \<open>
  The module's top-level statements run when the process imports the module, before the
  server accepts a request:
  \<^verbatim>\<open>tokenizer = Tokenizer.from_file("models/all-MiniLM-L6-v2/tokenizer.json")\<close>.
  An exception there ends the import. \<open>files_loaded\<close> records the paths given to
  \<open>from_file\<close>.
\<close>

record 'tok startup =
  module_globals :: "exn + 'tok globals"
  files_loaded :: "string list"

definition module_init :: "'tok from_file_op \<Rightarrow> 'tok startup" where
  "module_init from_file =
     \<lparr>module_globals =
        (case from_file ''models/all-MiniLM-L6-v2/tokenizer.json'' of
           Inl e \<Rightarrow> Inl e
         | Inr tok \<Rightarrow> Inr \<lparr>tokenizer = tok\<rparr>),
      files_loaded = [''models/all-MiniLM-L6-v2/tokenizer.json'']\<rparr>"

text \<open>
  A process either dies at startup with the exception, or serves the requests it is
  sent. \<open>paths_loaded\<close> and \<open>texts_encoded\<close> record every call of
  \<open>from_file\<close> and of \<open>encode\<close> over the life of the process.
\<close>

datatype process = StartupFailed exn | Served "http_response list"

record run =
  process :: process
  paths_loaded :: "string list"
  texts_encoded :: "string list"

definition run_server ::
  "'tok from_file_op \<Rightarrow> coercion \<Rightarrow> ('tok, 'm) encode_op \<Rightarrow> json list \<Rightarrow> run" where
  "run_server from_file coerce encode bodies =
     (let init = module_init from_file
      in case module_globals init of
           Inl e \<Rightarrow>
             \<lparr>process = StartupFailed e,
              paths_loaded = files_loaded init,
              texts_encoded = []\<rparr>
         | Inr g \<Rightarrow>
             (let out = serve coerce encode g bodies
              in \<lparr>process = Served (returned out),
                  paths_loaded = files_loaded init,
                  texts_encoded = encode_calls out\<rparr>))"

subsection \<open>Tokenizers used to run the model on concrete inputs\<close>

text \<open>
  A stand-in whose state is a vocabulary of characters: one id per character (100 for a
  character outside the vocabulary) between the markers 101 and 102, and a mask of
  ones. Its \<open>encode\<close> leaves the vocabulary as it is.
\<close>

type_synonym vocab = "(char \<times> int) list"

definition char_encode :: "(vocab, unit) encode_op" where
  "char_encode tok s =
     (Inr \<lparr>ids = 101 # map (\<lambda>c. case map_of tok c of None \<Rightarrow> 100 | Some i \<Rightarrow> i) s @ [102],
           attention_mask = replicate (length s + 2) 1\<rparr>, tok)"

text \<open>A stand-in whose \<open>encode\<close> always raises.\<close>

definition failing_encode :: "(vocab, unit) encode_op" where
  "failing_encode tok s = (Inl (Exception ''encode failed''), tok)"

text \<open>A file system that holds the tokenizer file, and one that does not.\<close>

definition file_present :: "vocab from_file_op" where
  "file_present path =
     (if path = ''models/all-MiniLM-L6-v2/tokenizer.json''
      then Inr [(CHR ''h'', 7), (CHR ''i'', 8)]
      else Inl (Exception ''No such file or directory''))"

definition file_absent :: "vocab from_file_op" where
  "file_absent path = Inl (Exception ''No such file or directory'')"

section \<open>Properties of the handler\<close>

lemma ints_of_map_JInt: "ints_of (map JInt xs) = Some xs"
  by (induction xs) simp_all

lemma validate_string:
  "text_field body = Some (JString s) \<Longrightarrow> validate_TextInput coerce body = Inr \<lparr>text = s\<rparr>"
  by (cases body) simp_all

lemma post_tokenize_returns:
  assumes "text_field body = Some (JString s)"
    and "encode (tokenizer g) s = (Inr enc, tok')"
  shows "post_tokenize coerce encode g body =
           \<lparr>returned = OK (JObject [(''ids'', JArray (map JInt (ids enc))),
                                    (''attention_mask'', JArray (map JInt (attention_mask enc)))]),
            globals_after = g\<lparr>tokenizer := tok'\<rparr>,
            encode_calls = [s]\<rparr>"
  using assms by (simp add: post_tokenize_def validate_string tokenize_def json_of_dict_def)

lemma post_tokenize_raises:
  assumes "text_field body = Some (JString s)"
    and "encode (tokenizer g) s = (Inl e, tok')"
  shows "post_tokenize coerce encode g body =
           \<lparr>returned = InternalServerError e,
            globals_after = g\<lparr>tokenizer := tok'\<rparr>,
            encode_calls = [s]\<rparr>"
  using assms by (simp add: post_tokenize_def validate_string tokenize_def)

lemma str_validate_no_coercion:
  "str_validate no_coercion v = (case v of JString s \<Rightarrow> Some s | _ \<Rightarrow> None)"
  by (cases v) (simp_all add: no_coercion_def)

lemma text_field_hi: "text_field (JObject [(''text'', JString ''hi'')]) = Some (JString ''hi'')"
  by (simp add: dict_get_def)

lemma char_encode_hi:
  "char_encode (tokenizer \<lparr>tokenizer = [(CHR ''h'', 7), (CHR ''i'', 8)]\<rparr>) ''hi''
     = (Inr \<lparr>ids = [101, 7, 8, 102], attention_mask = [1, 1, 1, 1]\<rparr>,
        [(CHR ''h'', 7), (CHR ''i'', 8)])"
  by (simp add: char_encode_def numeral_eq_Suc)

lemma post_tokenize_hi:
  "post_tokenize no_coercion char_encode \<lparr>tokenizer = [(CHR ''h'', 7), (CHR ''i'', 8)]\<rparr>
     (JObject [(''text'', JString ''hi'')])
   = \<lparr>returned = OK (JObject [(''ids'', JArray [JInt 101, JInt 7, JInt 8, JInt 102]),
                     (''attention_mask'', JArray [JInt 1, JInt 1, JInt 1, JInt 1])]),
      globals_after = \<lparr>tokenizer = [(CHR ''h'', 7), (CHR ''i'', 8)]\<rparr>,
      encode_calls = [''hi'']\<rparr>"
  using post_tokenize_returns [OF text_field_hi, where encode = char_encode, OF char_encode_hi]
  by simp

text \<open>
  C1. For a body whose \<open>text\<close> member is a string \<open>s\<close>, when \<open>encode s\<close> returns an
  encoding, the handler returns the dictionary whose \<open>ids\<close> and \<open>attention_mask\<close>
  are that encoding's lists, and the response is status 200 with exactly these two
  lists, element for element and in the same order: nothing is added, dropped or
  reordered.
\<close>

theorem tokenize_response_is_encoding:
  assumes "text_field body = Some (JString s)"
    and "encode (tokenizer g) s = (Inr enc, tok')"
  shows "returned (tokenize encode g \<lparr>text = s\<rparr>) =
           Inr [(''ids'', ids enc), (''attention_mask'', attention_mask enc)]
       \<and> returned (post_tokenize coerce encode g body) =
           OK (JObject [(''ids'', JArray (map JInt (ids enc))),
                        (''attention_mask'', JArray (map JInt (attention_mask enc)))])
       \<and> response_ints (returned (post_tokenize coerce encode g body)) ''ids'' = Some (ids enc)
       \<and> response_ints (returned (post_tokenize coerce encode g body)) ''attention_mask''
           = Some (attention_mask enc)"
proof -
  have "post_tokenize coerce encode g body =
          \<lparr>returned = OK (JObject [(''ids'', JArray (map JInt (ids enc))),
                                   (''attention_mask'', JArray (map JInt (attention_mask enc)))]),
           globals_after = g\<lparr>tokenizer := tok'\<rparr>,
           encode_calls = [s]\<rparr>"
    using assms by (rule post_tokenize_returns)
  then show ?thesis
    using assms(2) by (simp add: tokenize_def ints_of_map_JInt dict_get_def)
qed

theorem tokenize_response_is_encoding_witness:
  "text_field (JObject [(''text'', JString ''hi'')]) = Some (JString ''hi'')
   \<and> char_encode (tokenizer \<lparr>tokenizer = [(CHR ''h'', 7), (CHR ''i'', 8)]\<rparr>) ''hi''
       = (Inr \<lparr>ids = [101, 7, 8, 102], attention_mask = [1, 1, 1, 1]\<rparr>,
          [(CHR ''h'', 7), (CHR ''i'', 8)])
   \<and> returned (post_tokenize no_coercion char_encode
                 \<lparr>tokenizer = [(CHR ''h'', 7), (CHR ''i'', 8)]\<rparr>
                 (JObject [(''text'', JString ''hi'')]))
       = OK (JObject [(''ids'', JArray [JInt 101, JInt 7, JInt 8, JInt 102]),
                      (''attention_mask'', JArray [JInt 1, JInt 1, JInt 1, JInt 1])])"
proof -
  have body: "text_field (JObject [(''text'', JString ''hi'')]) = Some (JString ''hi'')"
    by (simp add: dict_get_def)
  have enc: "char_encode (tokenizer \<lparr>tokenizer = [(CHR ''h'', 7), (CHR ''i'', 8)]\<rparr>) ''hi''
      = (Inr \<lparr>ids = [101, 7, 8, 102], attention_mask = [1, 1, 1, 1]\<rparr>,
         [(CHR ''h'', 7), (CHR ''i'', 8)])"
    by (simp add: char_encode_def numeral_eq_Suc)
  have "returned (post_tokenize no_coercion char_encode
                   \<lparr>tokenizer = [(CHR ''h'', 7), (CHR ''i'', 8)]\<rparr>
                   (JObject [(''text'', JString ''hi'')]))
      = OK (JObject [(''ids'', JArray (map JInt (ids \<lparr>ids = [101, 7, 8, 102],
                                                         attention_mask = [1, 1, 1, 1]\<rparr>))),
                     (''attention_mask'',
                      JArray (map JInt (attention_mask \<lparr>ids = [101, 7, 8, 102],
                                                        attention_mask = [1, 1, 1, 1]\<rparr>)))])"
    using tokenize_response_is_encoding
      [where coerce = no_coercion and encode = char_encode
         and tok' = "[(CHR ''h'', 7), (CHR ''i'', 8)]", OF body enc]
    by blast
  then show ?thesis using body enc by simp
qed

lemma pow2_le_pow10: "(2::int) ^ (10 * k) \<le> 10 ^ (4 * k)"
proof -
  have "(2::int) ^ 10 \<le> 10 ^ 4" by simp
  then have "((2::int) ^ 10) ^ k \<le> (10 ^ 4) ^ k"
    by (rule power_mono) simp
  then show ?thesis by (simp only: power_mult)
qed

lemma float_overflows_large:
  assumes "m \<noteq> 0" and "412 \<le> e"
  shows "float_overflows m e"
proof -
  have e: "(412::nat) \<le> nat e" "0 \<le> e" using assms(2) by simp_all
  have "(2::int) ^ 1024 - 2 ^ 970 \<le> 2 ^ 1024"
    by (rule order_trans [OF diff_left_mono [of 0 "2 ^ 970"]])
      (simp_all only: zero_le_power zero_le_numeral diff_zero order_refl)
  also have "(2::int) ^ 1024 \<le> 2 ^ (10 * 103)"
    by (rule power_increasing) simp_all
  also have "(2::int) ^ (10 * 103) \<le> 10 ^ (4 * 103)"
    by (rule pow2_le_pow10)
  also have "(10::int) ^ (4 * 103) \<le> 10 ^ nat e"
    using e(1) by (intro power_increasing) simp_all
  also have "(10::int) ^ nat e \<le> \<bar>m\<bar> * 10 ^ nat e"
    using assms(1) by (intro mult_le_cancel_right1 [THEN iffD2]) simp
  finally show ?thesis
    using e(2) unfolding float_overflows_def by (simp only: if_True)
qed

lemma str_validate_rejects:
  "\<not> is_string v \<Longrightarrow> coerce v = None \<Longrightarrow> str_validate coerce v = None"
  by (cases v) simp_all

lemma validate_rejects:
  assumes "text_field body = None
           \<or> (\<exists>v. text_field body = Some v \<and> \<not> is_string v \<and> coerce v = None)"
  shows "\<exists>err. validate_TextInput coerce body = Inl err
               \<and> error_input err = rejected_input body"
  using assms
  by (cases body) (auto simp: rejected_input_def str_validate_rejects split: option.splits)

lemma post_tokenize_rejects:
  assumes "text_field body = None
           \<or> (\<exists>v. text_field body = Some v \<and> \<not> is_string v \<and> coerce v = None)"
  shows "\<exists>err. post_tokenize coerce encode g body =
           \<lparr>returned =
              (if has_nonfinite (rejected_input body)
               then InternalServerError
                      (Exception ''Out of range float values are not JSON compliant'')
               else UnprocessableEntity err),
            globals_after = g,
            encode_calls = []\<rparr>"
proof -
  from validate_rejects [OF assms] obtain err where
    "validate_TextInput coerce body = Inl err" and "error_input err = rejected_input body"
    by blast
  then show ?thesis by (simp add: post_tokenize_def)
qed

text \<open>
  C2, as the code has it. A body with no \<open>text\<close> member (or that is not an object),
  and a body whose \<open>text\<close> member is not a string and is not converted to one by the
  validation library, is rejected before the handler runs: \<open>encode\<close> is not called and
  the module state is the one before the request. The answer is status 422 when the
  rejected input holds no float that is not finite, and status 500 when it does.
\<close>

theorem invalid_text_is_rejected:
  assumes "text_field body = None
           \<or> (\<exists>v. text_field body = Some v \<and> \<not> is_string v \<and> coerce v = None)"
  shows "encode_calls (post_tokenize coerce encode g body) = []
       \<and> globals_after (post_tokenize coerce encode g body) = g
       \<and> status_code (returned (post_tokenize coerce encode g body))
           = (if has_nonfinite (rejected_input body) then 500 else 422)
       \<and> (\<not> has_nonfinite (rejected_input body) \<longrightarrow>
            (\<exists>err. returned (post_tokenize coerce encode g body) = UnprocessableEntity err))"
proof -
  from assms obtain err where
    "post_tokenize coerce encode g body =
       \<lparr>returned =
          (if has_nonfinite (rejected_input body)
           then InternalServerError
                  (Exception ''Out of range float values are not JSON compliant'')
           else UnprocessableEntity err),
        globals_after = g,
        encode_calls = []\<rparr>"
    using post_tokenize_rejects by blast
  then show ?thesis by simp
qed

theorem invalid_text_is_rejected_witness:
  "text_field (JObject [(''txt'', JString ''hi'')]) = None
   \<and> returned (post_tokenize no_coercion char_encode \<lparr>tokenizer = [(CHR ''h'', 7)]\<rparr>
                 (JObject [(''txt'', JString ''hi'')]))
       = UnprocessableEntity (Missing ''text'' (JObject [(''txt'', JString ''hi'')]))
   \<and> encode_calls (post_tokenize no_coercion char_encode \<lparr>tokenizer = [(CHR ''h'', 7)]\<rparr>
                 (JObject [(''txt'', JString ''hi'')])) = []
   \<and> text_field (JObject [(''text'', JInt 5)]) = Some (JInt 5)
   \<and> \<not> is_string (JInt 5)
   \<and> no_coercion (JInt 5) = None
   \<and> status_code (returned (post_tokenize no_coercion char_encode \<lparr>tokenizer = [(CHR ''h'', 7)]\<rparr>
                 (JObject [(''text'', JInt 5)]))) = 422
   \<and> encode_calls (post_tokenize no_coercion char_encode \<lparr>tokenizer = [(CHR ''h'', 7)]\<rparr>
                 (JObject [(''text'', JInt 5)])) = []
   \<and> text_field (JObject [(''text'', JFloat 1 999)]) = Some (JFloat 1 999)
   \<and> has_nonfinite (rejected_input (JObject [(''text'', JFloat 1 999)]))
   \<and> status_code (returned (post_tokenize no_coercion char_encode \<lparr>tokenizer = [(CHR ''h'', 7)]\<rparr>
                 (JObject [(''text'', JFloat 1 999)]))) = 500
   \<and> encode_calls (post_tokenize no_coercion char_encode \<lparr>tokenizer = [(CHR ''h'', 7)]\<rparr>
                 (JObject [(''text'', JFloat 1 999)])) = []"
proof -
  have missing: "text_field (JObject [(''txt'', JString ''hi'')]) = None"
    "\<not> has_nonfinite (rejected_input (JObject [(''txt'', JString ''hi'')]))"
    by (simp_all add: dict_get_def rejected_input_def)
  have wrong: "text_field (JObject [(''text'', JInt 5)]) = Some (JInt 5)"
    "\<not> is_string (JInt 5)" "no_coercion (JInt 5) = None"
    "\<not> has_nonfinite (rejected_input (JObject [(''text'', JInt 5)]))"
    by (simp_all add: dict_get_def no_coercion_def rejected_input_def)
  have big: "text_field (JObject [(''text'', JFloat 1 999)]) = Some (JFloat 1 999)"
    "\<not> is_string (JFloat 1 999)" "no_coercion (JFloat 1 999) = None"
    by (simp_all add: dict_get_def no_coercion_def)
  have inf: "has_nonfinite (rejected_input (JObject [(''text'', JFloat 1 999)]))"
    by (simp add: dict_get_def rejected_input_def float_overflows_large)
  have a: "encode_calls (post_tokenize no_coercion char_encode \<lparr>tokenizer = [(CHR ''h'', 7)]\<rparr>
                 (JObject [(''txt'', JString ''hi'')])) = []"
    using invalid_text_is_rejected [where body = "JObject [(''txt'', JString ''hi'')]"]
      missing by blast
  have b: "status_code (returned (post_tokenize no_coercion char_encode \<lparr>tokenizer = [(CHR ''h'', 7)]\<rparr>
                 (JObject [(''text'', JInt 5)]))) = 422
     \<and> encode_calls (post_tokenize no_coercion char_encode \<lparr>tokenizer = [(CHR ''h'', 7)]\<rparr>
                 (JObject [(''text'', JInt 5)])) = []"
    using invalid_text_is_rejected
      [where body = "JObject [(''text'', JInt 5)]" and coerce = no_coercion
         and encode = char_encode and g = "\<lparr>tokenizer = [(CHR ''h'', 7)]\<rparr>"] wrong
    by simp
  have c: "status_code (returned (post_tokenize no_coercion char_encode \<lparr>tokenizer = [(CHR ''h'', 7)]\<rparr>
                 (JObject [(''text'', JFloat 1 999)]))) = 500
     \<and> encode_calls (post_tokenize no_coercion char_encode \<lparr>tokenizer = [(CHR ''h'', 7)]\<rparr>
                 (JObject [(''text'', JFloat 1 999)])) = []"
    using invalid_text_is_rejected
      [where body = "JObject [(''text'', JFloat 1 999)]" and coerce = no_coercion
         and encode = char_encode and g = "\<lparr>tokenizer = [(CHR ''h'', 7)]\<rparr>"] big inf
    by simp
  have d: "returned (post_tokenize no_coercion char_encode \<lparr>tokenizer = [(CHR ''h'', 7)]\<rparr>
                 (JObject [(''txt'', JString ''hi'')]))
       = UnprocessableEntity (Missing ''text'' (JObject [(''txt'', JString ''hi'')]))"
    by (simp add: post_tokenize_def dict_get_def)
  show ?thesis using missing(1) wrong(1,2,3) big(1) inf a b c d by simp
qed

text \<open>
  The claim as the specification states it fails in two ways. With a validation
  library that does not convert, a body without \<open>text\<close> that holds a \<open>NaN\<close> is
  answered with status 500. With one that converts integers as Python's \<open>str\<close>
  does, the integer 5 as \<open>text\<close> is accepted: \<open>encode\<close> is called with the
  string \<open>5\<close> and the answer is status 200.
\<close>

theorem invalid_text_not_always_client_error:
  "text_field (JObject [(''x'', JNaN)]) = None
   \<and> status_code (returned (post_tokenize no_coercion char_encode
        \<lparr>tokenizer = [(CHR ''5'', 9)]\<rparr> (JObject [(''x'', JNaN)]))) = 500
   \<and> text_field (JObject [(''text'', JInt 5)]) = Some (JInt 5)
   \<and> \<not> is_string (JInt 5)
   \<and> returned (post_tokenize str_coercion char_encode
        \<lparr>tokenizer = [(CHR ''5'', 9)]\<rparr> (JObject [(''text'', JInt 5)]))
       = OK (JObject [(''ids'', JArray [JInt 101, JInt 9, JInt 102]),
                      (''attention_mask'', JArray [JInt 1, JInt 1, JInt 1])])
   \<and> encode_calls (post_tokenize str_coercion char_encode
        \<lparr>tokenizer = [(CHR ''5'', 9)]\<rparr> (JObject [(''text'', JInt 5)])) = [''5'']"
  by (simp add: post_tokenize_def tokenize_def char_encode_def json_of_dict_def dict_get_def
      no_coercion_def numeral_eq_Suc)

text \<open>
  C7. When \<open>encode\<close> raises on a valid request, the exception leaves the handler
  and the response is status 500 carrying that exception. \<open>encode\<close> was called
  once, with the request's text: there is no second attempt and no substitute result.
\<close>

theorem encode_failure_is_server_error:
  assumes "text_field body = Some (JString s)"
    and "encode (tokenizer g) s = (Inl e, tok')"
  shows "returned (tokenize encode g \<lparr>text = s\<rparr>) = Inl e
       \<and> returned (post_tokenize coerce encode g body) = InternalServerError e
       \<and> status_code (returned (post_tokenize coerce encode g body)) = 500
       \<and> encode_calls (post_tokenize coerce encode g body) = [s]"
proof -
  have "post_tokenize coerce encode g body =
          \<lparr>returned = InternalServerError e,
           globals_after = g\<lparr>tokenizer := tok'\<rparr>,
           encode_calls = [s]\<rparr>"
    using assms by (rule post_tokenize_raises)
  then show ?thesis using assms(2) by (simp add: tokenize_def)
qed

theorem encode_failure_is_server_error_witness:
  "text_field (JObject [(''text'', JString ''hi'')]) = Some (JString ''hi'')
   \<and> failing_encode (tokenizer \<lparr>tokenizer = [(CHR ''h'', 7)]\<rparr>) ''hi''
       = (Inl (Exception ''encode failed''), [(CHR ''h'', 7)])
   \<and> returned (post_tokenize no_coercion failing_encode \<lparr>tokenizer = [(CHR ''h'', 7)]\<rparr>
                 (JObject [(''text'', JString ''hi'')]))
       = InternalServerError (Exception ''encode failed'')
   \<and> encode_calls (post_tokenize no_coercion failing_encode \<lparr>tokenizer = [(CHR ''h'', 7)]\<rparr>
                 (JObject [(''text'', JString ''hi'')])) = [''hi'']"
proof -
  have body: "text_field (JObject [(''text'', JString ''hi'')]) = Some (JString ''hi'')"
    by (simp add: dict_get_def)
  have enc: "failing_encode (tokenizer \<lparr>tokenizer = [(CHR ''h'', 7)]\<rparr>) ''hi''
       = (Inl (Exception ''encode failed''), [(CHR ''h'', 7)])"
    by (simp add: failing_encode_def)
  show ?thesis
    using encode_failure_is_server_error
      [where coerce = no_coercion and encode = failing_encode
         and tok' = "[(CHR ''h'', 7)]", OF body enc] body enc
    by simp
qed

text \<open>
  C3. For a valid text on which \<open>encode\<close> returns an encoding whose \<open>ids\<close> and
  \<open>attention_mask\<close> have the same length, the response holds both arrays and they
  have the same length.
\<close>

theorem response_lengths_agree:
  assumes "text_field body = Some (JString s)"
    and "encode (tokenizer g) s = (Inr enc, tok')"
    and "length (ids enc) = length (attention_mask enc)"
  shows "\<exists>xs ys. response_ints (returned (post_tokenize coerce encode g body)) ''ids'' = Some xs
           \<and> response_ints (returned (post_tokenize coerce encode g body)) ''attention_mask'' = Some ys
           \<and> length xs = length ys"
proof -
  have "post_tokenize coerce encode g body =
          \<lparr>returned = OK (JObject [(''ids'', JArray (map JInt (ids enc))),
                                   (''attention_mask'', JArray (map JInt (attention_mask enc)))]),
           globals_after = g\<lparr>tokenizer := tok'\<rparr>,
           encode_calls = [s]\<rparr>"
    using assms(1,2) by (rule post_tokenize_returns)
  then show ?thesis
    using assms(3) by (simp add: ints_of_map_JInt dict_get_def)
qed

theorem response_lengths_agree_witness:
  "text_field (JObject [(''text'', JString ''hi'')]) = Some (JString ''hi'')
   \<and> char_encode (tokenizer \<lparr>tokenizer = [(CHR ''h'', 7), (CHR ''i'', 8)]\<rparr>) ''hi''
       = (Inr \<lparr>ids = [101, 7, 8, 102], attention_mask = [1, 1, 1, 1]\<rparr>,
          [(CHR ''h'', 7), (CHR ''i'', 8)])
   \<and> length (ids \<lparr>ids = [101, 7, 8, 102], attention_mask = [1, 1, 1, 1]\<rparr>)
       = length (attention_mask \<lparr>ids = [101, 7, 8, 102], attention_mask = [1, 1, 1, 1]\<rparr>)
   \<and> (\<exists>xs ys.
         response_ints (returned (post_tokenize no_coercion char_encode
            \<lparr>tokenizer = [(CHR ''h'', 7), (CHR ''i'', 8)]\<rparr>
            (JObject [(''text'', JString ''hi'')]))) ''ids'' = Some xs
       \<and> response_ints (returned (post_tokenize no_coercion char_encode
            \<lparr>tokenizer = [(CHR ''h'', 7), (CHR ''i'', 8)]\<rparr>
            (JObject [(''text'', JString ''hi'')]))) ''attention_mask'' = Some ys
       \<and> length xs = length ys)"
proof -
  have len: "length (ids \<lparr>ids = [101, 7, 8, 102], attention_mask = [1, 1, 1, 1]\<rparr>)
       = length (attention_mask \<lparr>ids = [101, 7, 8, 102], attention_mask = [1, 1, 1, 1]\<rparr>)"
    by simp
  show ?thesis
    using response_lengths_agree
      [where coerce = no_coercion and encode = char_encode
         and tok' = "[(CHR ''h'', 7), (CHR ''i'', 8)]", OF text_field_hi char_encode_hi len]
      text_field_hi char_encode_hi len
    by blast
qed

text \<open>
  C4. For a valid text on which \<open>encode\<close> returns an encoding whose mask holds
  only 0 and 1, every element of the response's \<open>attention_mask\<close> is 0 or 1.
\<close>

theorem attention_mask_is_binary:
  assumes "text_field body = Some (JString s)"
    and "encode (tokenizer g) s = (Inr enc, tok')"
    and "set (attention_mask enc) \<subseteq> {0, 1}"
  shows "\<exists>ys. response_ints (returned (post_tokenize coerce encode g body)) ''attention_mask'' = Some ys
           \<and> set ys \<subseteq> {0, 1}"
proof -
  have "post_tokenize coerce encode g body =
          \<lparr>returned = OK (JObject [(''ids'', JArray (map JInt (ids enc))),
                                   (''attention_mask'', JArray (map JInt (attention_mask enc)))]),
           globals_after = g\<lparr>tokenizer := tok'\<rparr>,
           encode_calls = [s]\<rparr>"
    using assms(1,2) by (rule post_tokenize_returns)
  then show ?thesis
    using assms(3) by (simp add: ints_of_map_JInt dict_get_def)
qed

theorem attention_mask_is_binary_witness:
  "text_field (JObject [(''text'', JString ''hi'')]) = Some (JString ''hi'')
   \<and> char_encode (tokenizer \<lparr>tokenizer = [(CHR ''h'', 7), (CHR ''i'', 8)]\<rparr>) ''hi''
       = (Inr \<lparr>ids = [101, 7, 8, 102], attention_mask = [1, 1, 1, 1]\<rparr>,
          [(CHR ''h'', 7), (CHR ''i'', 8)])
   \<and> set (attention_mask \<lparr>ids = [101, 7, 8, 102], attention_mask = [1, 1, 1, 1]\<rparr>) \<subseteq> {0, 1}
   \<and> (\<exists>ys.
         response_ints (returned (post_tokenize no_coercion char_encode
            \<lparr>tokenizer = [(CHR ''h'', 7), (CHR ''i'', 8)]\<rparr>
            (JObject [(''text'', JString ''hi'')]))) ''attention_mask'' = Some ys
       \<and> set ys \<subseteq> {0, 1})"
proof -
  have mask: "set (attention_mask \<lparr>ids = [101, 7, 8, 102], attention_mask = [1, 1, 1, 1]\<rparr>)
       \<subseteq> {0, 1}"
    by simp
  show ?thesis
    using attention_mask_is_binary
      [where coerce = no_coercion and encode = char_encode
         and tok' = "[(CHR ''h'', 7), (CHR ''i'', 8)]", OF text_field_hi char_encode_hi mask]
      text_field_hi char_encode_hi mask
    by blast
qed

text \<open>
  C5, as the code has it. The body \<open>{"text": ""}\<close> passes validation: the empty
  string is a valid text, so the request is never answered with status 422, and
  \<open>encode\<close> is called once with the empty string. When \<open>encode\<close> returns an
  encoding for it, the response is status 200 with a well-formed body (the two arrays,
  which may be empty or hold only special tokens). When \<open>encode\<close> raises, the
  response is status 500 with that exception.
\<close>

theorem empty_text_is_served:
  "validate_TextInput coerce (JObject [(''text'', JString '''')]) = Inr \<lparr>text = ''''\<rparr>
   \<and> status_code (returned (post_tokenize coerce encode g (JObject [(''text'', JString '''')])))
       \<noteq> 422
   \<and> encode_calls (post_tokenize coerce encode g (JObject [(''text'', JString '''')])) = ['''']
   \<and> (encode (tokenizer g) '''' = (Inr enc, tok') \<longrightarrow>
        (\<exists>b. returned (post_tokenize coerce encode g (JObject [(''text'', JString '''')])) = OK b
              \<and> well_formed b)
        \<and> status_code (returned (post_tokenize coerce encode g (JObject [(''text'', JString '''')])))
            = 200)
   \<and> (encode (tokenizer g) '''' = (Inl e, tok'') \<longrightarrow>
        returned (post_tokenize coerce encode g (JObject [(''text'', JString '''')]))
          = InternalServerError e)"
proof -
  have body: "text_field (JObject [(''text'', JString '''')]) = Some (JString '''')"
    by (simp add: dict_get_def)
  have ok: "encode (tokenizer g) '''' = (Inr enc, tok') \<Longrightarrow>
      post_tokenize coerce encode g (JObject [(''text'', JString '''')]) =
          \<lparr>returned = OK (JObject [(''ids'', JArray (map JInt (ids enc))),
                                   (''attention_mask'', JArray (map JInt (attention_mask enc)))]),
           globals_after = g\<lparr>tokenizer := tok'\<rparr>,
           encode_calls = ['''']\<rparr>"
    using body by (rule post_tokenize_returns)
  have raised: "encode (tokenizer g) '''' = (Inl e, tok'') \<Longrightarrow>
      post_tokenize coerce encode g (JObject [(''text'', JString '''')]) =
          \<lparr>returned = InternalServerError e,
           globals_after = g\<lparr>tokenizer := tok''\<rparr>,
           encode_calls = ['''']\<rparr>"
    using body by (rule post_tokenize_raises)
  have calls: "encode_calls (post_tokenize coerce encode g (JObject [(''text'', JString '''')]))
      = ['''']"
    by (simp add: post_tokenize_def tokenize_def dict_get_def Let_def
        split: sum.splits prod.splits)
  have status: "status_code (returned (post_tokenize coerce encode g
      (JObject [(''text'', JString '''')]))) \<noteq> 422"
    by (simp add: post_tokenize_def dict_get_def Let_def split: sum.splits)
  show ?thesis
    using ok raised calls status
    by (simp add: well_formed_def ints_of_map_JInt dict_get_def)
qed

theorem empty_text_is_served_witness:
  "char_encode (tokenizer \<lparr>tokenizer = [(CHR ''h'', 7), (CHR ''i'', 8)]\<rparr>) ''''
       = (Inr \<lparr>ids = [101, 102], attention_mask = [1, 1]\<rparr>, [(CHR ''h'', 7), (CHR ''i'', 8)])
   \<and> returned (post_tokenize no_coercion char_encode
        \<lparr>tokenizer = [(CHR ''h'', 7), (CHR ''i'', 8)]\<rparr> (JObject [(''text'', JString '''')]))
       = OK (JObject [(''ids'', JArray [JInt 101, JInt 102]),
                      (''attention_mask'', JArray [JInt 1, JInt 1])])
   \<and> status_code (returned (post_tokenize no_coercion char_encode
        \<lparr>tokenizer = [(CHR ''h'', 7), (CHR ''i'', 8)]\<rparr> (JObject [(''text'', JString '''')])))
       = 200
   \<and> failing_encode (tokenizer \<lparr>tokenizer = [(CHR ''h'', 7), (CHR ''i'', 8)]\<rparr>) ''''
       = (Inl (Exception ''encode failed''), [(CHR ''h'', 7), (CHR ''i'', 8)])
   \<and> returned (post_tokenize no_coercion failing_encode
        \<lparr>tokenizer = [(CHR ''h'', 7), (CHR ''i'', 8)]\<rparr> (JObject [(''text'', JString '''')]))
       = InternalServerError (Exception ''encode failed'')"
proof -
  have enc: "char_encode (tokenizer \<lparr>tokenizer = [(CHR ''h'', 7), (CHR ''i'', 8)]\<rparr>) ''''
       = (Inr \<lparr>ids = [101, 102], attention_mask = [1, 1]\<rparr>, [(CHR ''h'', 7), (CHR ''i'', 8)])"
    by (simp add: char_encode_def numeral_eq_Suc)
  have fails: "failing_encode (tokenizer \<lparr>tokenizer = [(CHR ''h'', 7), (CHR ''i'', 8)]\<rparr>) ''''
       = (Inl (Exception ''encode failed''), [(CHR ''h'', 7), (CHR ''i'', 8)])"
    by (simp add: failing_encode_def)
  have "status_code (returned (post_tokenize no_coercion char_encode
        \<lparr>tokenizer = [(CHR ''h'', 7), (CHR ''i'', 8)]\<rparr> (JObject [(''text'', JString '''')])))
       = 200"
    using empty_text_is_served
      [where coerce = no_coercion and encode = char_encode
         and g = "\<lparr>tokenizer = [(CHR ''h'', 7), (CHR ''i'', 8)]\<rparr>"
         and enc = "\<lparr>ids = [101, 102], attention_mask = [1, 1]\<rparr>"
         and tok' = "[(CHR ''h'', 7), (CHR ''i'', 8)]"] enc
    by blast
  moreover have "returned (post_tokenize no_coercion failing_encode
        \<lparr>tokenizer = [(CHR ''h'', 7), (CHR ''i'', 8)]\<rparr> (JObject [(''text'', JString '''')]))
       = InternalServerError (Exception ''encode failed'')"
    using empty_text_is_served
      [where coerce = no_coercion and encode = failing_encode
         and g = "\<lparr>tokenizer = [(CHR ''h'', 7), (CHR ''i'', 8)]\<rparr>"
         and e = "Exception ''encode failed''"
         and tok'' = "[(CHR ''h'', 7), (CHR ''i'', 8)]"] fails
    by blast
  moreover have "returned (post_tokenize no_coercion char_encode
        \<lparr>tokenizer = [(CHR ''h'', 7), (CHR ''i'', 8)]\<rparr> (JObject [(''text'', JString '''')]))
       = OK (JObject [(''ids'', JArray [JInt 101, JInt 102]),
                      (''attention_mask'', JArray [JInt 1, JInt 1])])"
    using enc by (simp add: post_tokenize_def tokenize_def json_of_dict_def dict_get_def)
  ultimately show ?thesis using enc fails by simp
qed

text \<open>
  The claim as the specification states it, with no condition on \<open>encode\<close>, fails
  for a tokenizer whose \<open>encode\<close> raises on the empty string: the answer is status
  500.
\<close>

theorem empty_text_can_fail:
  "returned (post_tokenize no_coercion failing_encode
        \<lparr>tokenizer = [(CHR ''h'', 7), (CHR ''i'', 8)]\<rparr> (JObject [(''text'', JString '''')]))
       = InternalServerError (Exception ''encode failed'')
   \<and> status_code (returned (post_tokenize no_coercion failing_encode
        \<lparr>tokenizer = [(CHR ''h'', 7), (CHR ''i'', 8)]\<rparr> (JObject [(''text'', JString '''')])))
       = 500"
  by (simp add: post_tokenize_def tokenize_def failing_encode_def dict_get_def)

lemma post_tokenize_only_text:
  assumes "text_field body = Some (JString s)"
  shows "post_tokenize coerce encode g body
       = post_tokenize coerce' encode g (JObject [(''text'', JString s)])"
  using assms by (simp add: post_tokenize_def validate_string dict_get_def)

lemma post_tokenize_globals:
  "globals_after (post_tokenize coerce encode g body) =
     (case encode_calls (post_tokenize coerce encode g body) of
        [] \<Rightarrow> g
      | s # rest \<Rightarrow> g\<lparr>tokenizer := snd (encode (tokenizer g) s)\<rparr>)"
  by (auto simp: post_tokenize_def tokenize_def Let_def split: sum.splits prod.splits)

lemma post_tokenize_read_only:
  "read_only encode \<Longrightarrow> globals_after (post_tokenize coerce encode g body) = g"
  by (simp add: post_tokenize_globals read_only_def split: list.splits)

lemma serve_read_only:
  "read_only encode \<Longrightarrow>
   serve coerce encode g bodies =
     \<lparr>returned = map (\<lambda>b. returned (post_tokenize coerce encode g b)) bodies,
      globals_after = g,
      encode_calls = concat (map (\<lambda>b. encode_calls (post_tokenize coerce encode g b)) bodies)\<rparr>"
  by (induction bodies) (simp_all add: Let_def post_tokenize_read_only)

text \<open>
  C6. In a run of the server over a read-only tokenizer (started from one tokenizer
  file), any two requests whose \<open>text\<close> is the same string get the same response,
  whatever requests were handled in between and whatever other members the two bodies
  have.
\<close>

theorem same_text_same_response:
  assumes "read_only encode"
    and "i < length bodies" and "j < length bodies"
    and "text_field (bodies ! i) = Some (JString s)"
    and "text_field (bodies ! j) = Some (JString s)"
  shows "returned (serve coerce encode g bodies) ! i = returned (serve coerce encode g bodies) ! j"
proof -
  have "returned (post_tokenize coerce encode g (bodies ! i))
      = returned (post_tokenize coerce encode g (bodies ! j))"
    using post_tokenize_only_text [OF assms(4), of coerce encode g coerce]
      post_tokenize_only_text [OF assms(5), of coerce encode g coerce]
    by simp
  then show ?thesis
    using assms(1,2,3) by (simp add: serve_read_only)
qed

lemma read_only_char_encode: "read_only char_encode"
  by (simp add: read_only_def char_encode_def)

theorem same_text_same_response_witness:
  "read_only char_encode
   \<and> text_field (JObject [(''text'', JString ''hi'')]) = Some (JString ''hi'')
   \<and> text_field (JObject [(''text'', JString ''hi''), (''lang'', JString ''en'')])
       = Some (JString ''hi'')
   \<and> returned (serve no_coercion char_encode \<lparr>tokenizer = [(CHR ''h'', 7), (CHR ''i'', 8)]\<rparr>
        [JObject [(''text'', JString ''hi'')],
         JObject [(''text'', JString ''h'')],
         JObject [(''text'', JString ''hi''), (''lang'', JString ''en'')]]) ! 0
     = returned (serve no_coercion char_encode \<lparr>tokenizer = [(CHR ''h'', 7), (CHR ''i'', 8)]\<rparr>
        [JObject [(''text'', JString ''hi'')],
         JObject [(''text'', JString ''h'')],
         JObject [(''text'', JString ''hi''), (''lang'', JString ''en'')]]) ! 2
   \<and> returned (serve no_coercion char_encode \<lparr>tokenizer = [(CHR ''h'', 7), (CHR ''i'', 8)]\<rparr>
        [JObject [(''text'', JString ''hi'')],
         JObject [(''text'', JString ''h'')],
         JObject [(''text'', JString ''hi''), (''lang'', JString ''en'')]]) ! 0
     = OK (JObject [(''ids'', JArray [JInt 101, JInt 7, JInt 8, JInt 102]),
                    (''attention_mask'', JArray [JInt 1, JInt 1, JInt 1, JInt 1])])"
proof -
  let ?bodies = "[JObject [(''text'', JString ''hi'')],
         JObject [(''text'', JString ''h'')],
         JObject [(''text'', JString ''hi''), (''lang'', JString ''en'')]]"
  note ro = read_only_char_encode
  have i: "(0::nat) < length ?bodies" and j: "(2::nat) < length ?bodies"
    by simp_all
  have ti: "text_field (?bodies ! 0) = Some (JString ''hi'')"
    and tj: "text_field (?bodies ! 2) = Some (JString ''hi'')"
    by (simp_all add: dict_get_def)
  have same: "returned (serve no_coercion char_encode
                 \<lparr>tokenizer = [(CHR ''h'', 7), (CHR ''i'', 8)]\<rparr> ?bodies) ! 0
      = returned (serve no_coercion char_encode
                 \<lparr>tokenizer = [(CHR ''h'', 7), (CHR ''i'', 8)]\<rparr> ?bodies) ! 2"
    using same_text_same_response [OF ro i j ti tj] .
  have first: "returned (serve no_coercion char_encode
                 \<lparr>tokenizer = [(CHR ''h'', 7), (CHR ''i'', 8)]\<rparr> ?bodies) ! 0
      = OK (JObject [(''ids'', JArray [JInt 101, JInt 7, JInt 8, JInt 102]),
                    (''attention_mask'', JArray [JInt 1, JInt 1, JInt 1, JInt 1])])"
    by (simp add: Let_def post_tokenize_hi)
  show ?thesis using ro ti tj same first by simp
qed

lemma dict_get_unique:
  assumes "k \<notin> fst ` set after"
  shows "dict_get (before @ (k, v) # after) k = Some v"
proof -
  have "map_of (rev after) k = None"
    using assms by (simp add: map_of_eq_None_iff)
  then show ?thesis
    by (simp add: dict_get_def map_add_def)
qed

text \<open>
  C10. A body that has the member \<open>text\<close> with a string value, together with any
  members of other names before or after it, is accepted (it is not answered with
  status 422), and the whole outcome (response, module state, \<open>encode\<close> calls) is that
  of the body holding \<open>text\<close> alone.
\<close>

theorem extra_fields_are_ignored:
  assumes "''text'' \<notin> fst ` set (before @ after)"
  shows "post_tokenize coerce encode g (JObject (before @ (''text'', JString s) # after))
       = post_tokenize coerce encode g (JObject [(''text'', JString s)])
       \<and> status_code (returned (post_tokenize coerce encode g
            (JObject (before @ (''text'', JString s) # after)))) \<noteq> 422"
proof -
  have "''text'' \<notin> fst ` set after"
    using assms by auto
  then have "text_field (JObject (before @ (''text'', JString s) # after)) = Some (JString s)"
    by (simp add: dict_get_unique)
  then have same: "post_tokenize coerce encode g (JObject (before @ (''text'', JString s) # after))
       = post_tokenize coerce encode g (JObject [(''text'', JString s)])"
    by (rule post_tokenize_only_text)
  have "status_code (returned (post_tokenize coerce encode g (JObject [(''text'', JString s)])))
       \<noteq> 422"
    by (simp add: post_tokenize_def dict_get_def Let_def split: sum.splits)
  with same show ?thesis by simp
qed

theorem extra_fields_are_ignored_witness:
  "''text'' \<notin> fst ` set ([(''lang'', JString ''en'')] @ [(''max_length'', JInt 3)])
   \<and> post_tokenize no_coercion char_encode \<lparr>tokenizer = [(CHR ''h'', 7), (CHR ''i'', 8)]\<rparr>
        (JObject [(''lang'', JString ''en''), (''text'', JString ''hi''), (''max_length'', JInt 3)])
     = \<lparr>returned = OK (JObject [(''ids'', JArray [JInt 101, JInt 7, JInt 8, JInt 102]),
                     (''attention_mask'', JArray [JInt 1, JInt 1, JInt 1, JInt 1])]),
        globals_after = \<lparr>tokenizer = [(CHR ''h'', 7), (CHR ''i'', 8)]\<rparr>,
        encode_calls = [''hi'']\<rparr>"
proof -
  have other: "''text'' \<notin> fst ` set ([(''lang'', JString ''en'')] @ [(''max_length'', JInt 3)])"
    by simp
  from extra_fields_are_ignored [OF other, of no_coercion char_encode
      "\<lparr>tokenizer = [(CHR ''h'', 7), (CHR ''i'', 8)]\<rparr>" "''hi''"]
  have "post_tokenize no_coercion char_encode \<lparr>tokenizer = [(CHR ''h'', 7), (CHR ''i'', 8)]\<rparr>
        (JObject [(''lang'', JString ''en''), (''text'', JString ''hi''), (''max_length'', JInt 3)])
      = post_tokenize no_coercion char_encode \<lparr>tokenizer = [(CHR ''h'', 7), (CHR ''i'', 8)]\<rparr>
        (JObject [(''text'', JString ''hi'')])"
    by simp
  then show ?thesis using other by (simp add: post_tokenize_hi)
qed

text \<open>
  C9. A request leaves every part of the module state other than the tokenizer as it
  was; the tokenizer after the request is the one before it when \<open>encode\<close> was not
  called, and otherwise what the single \<open>encode\<close> call left. So over a read-only
  tokenizer the module state after a request, and after any sequence of requests, is
  the state before.
\<close>

theorem handler_changes_nothing_else:
  "globals.more (globals_after (post_tokenize coerce encode g body)) = globals.more g
   \<and> tokenizer (globals_after (post_tokenize coerce encode g body))
       = (case encode_calls (post_tokenize coerce encode g body) of
            [] \<Rightarrow> tokenizer g
          | s # rest \<Rightarrow> snd (encode (tokenizer g) s))
   \<and> (read_only encode \<longrightarrow>
        globals_after (post_tokenize coerce encode g body) = g
        \<and> globals_after (serve coerce encode g bodies) = g)"
proof -
  have "globals_after (post_tokenize coerce encode g body) =
     (case encode_calls (post_tokenize coerce encode g body) of
        [] \<Rightarrow> g
      | s # rest \<Rightarrow> g\<lparr>tokenizer := snd (encode (tokenizer g) s)\<rparr>)"
    by (rule post_tokenize_globals)
  then have "globals.more (globals_after (post_tokenize coerce encode g body)) = globals.more g"
    and "tokenizer (globals_after (post_tokenize coerce encode g body))
       = (case encode_calls (post_tokenize coerce encode g body) of
            [] \<Rightarrow> tokenizer g
          | s # rest \<Rightarrow> snd (encode (tokenizer g) s))"
    by (simp_all split: list.splits)
  then show ?thesis
    by (simp add: post_tokenize_read_only serve_read_only)
qed

theorem handler_changes_nothing_else_witness:
  "read_only char_encode
   \<and> globals_after (post_tokenize no_coercion char_encode
        \<lparr>tokenizer = [(CHR ''h'', 7), (CHR ''i'', 8)]\<rparr> (JObject [(''text'', JString ''hi'')]))
       = \<lparr>tokenizer = [(CHR ''h'', 7), (CHR ''i'', 8)]\<rparr>
   \<and> globals_after (serve no_coercion char_encode
        \<lparr>tokenizer = [(CHR ''h'', 7), (CHR ''i'', 8)]\<rparr>
        [JObject [(''text'', JString ''hi'')], JObject [], JObject [(''text'', JString ''h'')]])
       = \<lparr>tokenizer = [(CHR ''h'', 7), (CHR ''i'', 8)]\<rparr>"
  using handler_changes_nothing_else
    [of no_coercion char_encode "\<lparr>tokenizer = [(CHR ''h'', 7), (CHR ''i'', 8)]\<rparr>"
      "JObject [(''text'', JString ''hi'')]"
      "[JObject [(''text'', JString ''hi'')], JObject [], JObject [(''text'', JString ''h'')]]"]
    read_only_char_encode
  by blast

text \<open>
  C8. A process calls \<open>from_file\<close> once, with the path
  \<open>models/all-MiniLM-L6-v2/tokenizer.json\<close>, whatever requests follow. If that call
  raises, the process ends at startup with the exception: there is no response to any
  request and \<open>encode\<close> is never called. If it returns a tokenizer, every request
  is served from the module state holding that tokenizer.
\<close>

theorem tokenizer_loaded_once_at_startup:
  "paths_loaded (run_server from_file coerce encode bodies)
       = [''models/all-MiniLM-L6-v2/tokenizer.json'']
   \<and> (from_file ''models/all-MiniLM-L6-v2/tokenizer.json'' = Inl e \<longrightarrow>
        process (run_server from_file coerce encode bodies) = StartupFailed e
        \<and> texts_encoded (run_server from_file coerce encode bodies) = [])
   \<and> (from_file ''models/all-MiniLM-L6-v2/tokenizer.json'' = Inr tok \<longrightarrow>
        process (run_server from_file coerce encode bodies)
          = Served (returned (serve coerce encode \<lparr>tokenizer = tok\<rparr> bodies)))"
  by (cases "from_file ''models/all-MiniLM-L6-v2/tokenizer.json''")
    (simp_all add: run_server_def module_init_def Let_def)

theorem tokenizer_loaded_once_at_startup_witness:
  "file_absent ''models/all-MiniLM-L6-v2/tokenizer.json''
       = Inl (Exception ''No such file or directory'')
   \<and> process (run_server file_absent no_coercion char_encode
                [JObject [(''text'', JString ''hi'')]])
       = StartupFailed (Exception ''No such file or directory'')
   \<and> texts_encoded (run_server file_absent no_coercion char_encode
                [JObject [(''text'', JString ''hi'')]]) = []
   \<and> file_present ''models/all-MiniLM-L6-v2/tokenizer.json''
       = Inr [(CHR ''h'', 7), (CHR ''i'', 8)]
   \<and> paths_loaded (run_server file_present no_coercion char_encode
                [JObject [(''text'', JString ''hi'')]])
       = [''models/all-MiniLM-L6-v2/tokenizer.json'']
   \<and> process (run_server file_present no_coercion char_encode
                [JObject [(''text'', JString ''hi'')]])
       = Served [OK (JObject [(''ids'', JArray [JInt 101, JInt 7, JInt 8, JInt 102]),
                            (''attention_mask'', JArray [JInt 1, JInt 1, JInt 1, JInt 1])])]"
proof -
  have absent: "file_absent ''models/all-MiniLM-L6-v2/tokenizer.json''
       = Inl (Exception ''No such file or directory'')"
    by (simp add: file_absent_def)
  have present: "file_present ''models/all-MiniLM-L6-v2/tokenizer.json''
       = Inr [(CHR ''h'', 7), (CHR ''i'', 8)]"
    by (simp add: file_present_def)
  have served: "returned (serve no_coercion char_encode
        \<lparr>tokenizer = [(CHR ''h'', 7), (CHR ''i'', 8)]\<rparr> [JObject [(''text'', JString ''hi'')]])
      = [OK (JObject [(''ids'', JArray [JInt 101, JInt 7, JInt 8, JInt 102]),
                     (''attention_mask'', JArray [JInt 1, JInt 1, JInt 1, JInt 1])])]"
    by (simp add: Let_def post_tokenize_hi)
  show ?thesis
    using tokenizer_loaded_once_at_startup
      [of file_absent no_coercion char_encode "[JObject [(''text'', JString ''hi'')]]"
        "Exception ''No such file or directory''"]
      tokenizer_loaded_once_at_startup
      [of file_present no_coercion char_encode "[JObject [(''text'', JString ''hi'')]]"
        _ "[(CHR ''h'', 7), (CHR ''i'', 8)]"]
      absent present served
    by simp
qed

end
